theory Spec2Isabelle
  imports Complex_Main
begin

section \<open>JavaScript values\<close>

text \<open>
  The trigger of \<^verbatim>\<open>MongoDbChangeStream.node.ts\<close> handles values typed \<^verbatim>\<open>any\<close>:
  change events, resume tokens, filter and projection documents. They are modelled as
  trees. An object is an association list of its own enumerable properties in
  enumeration order (keys taken distinct); numbers are the integers; a \<^verbatim>\<open>Date\<close> is its
  time in milliseconds.
\<close>

datatype json =
    JNull
  | JUndefined
  | JBool bool
  | JNum int
  | JStr string
  | JDate int
  | JArr "json list"
  | JObj "(string \<times> json) list"

text \<open>An exception that was thrown, with its \<^verbatim>\<open>message\<close>.\<close>

datatype js_error = TypeError string | DriverError string

fun message :: "js_error \<Rightarrow> string" where
  "message (TypeError m) = m"
| "message (DriverError m) = m"

text \<open>\<^verbatim>\<open>ToBoolean\<close>: what \<^verbatim>\<open>||\<close>, \<^verbatim>\<open>&&\<close>, \<^verbatim>\<open>!\<close> and \<^verbatim>\<open>if\<close> test.\<close>

fun truthy :: "json \<Rightarrow> bool" where
  "truthy JNull = False"
| "truthy JUndefined = False"
| "truthy (JBool b) = b"
| "truthy (JNum n) = (n \<noteq> 0)"
| "truthy (JStr s) = (s \<noteq> [])"
| "truthy (JDate t) = True"
| "truthy (JArr xs) = True"
| "truthy (JObj kvs) = True"

text \<open>\<^verbatim>\<open>a || b\<close> on values already computed.\<close>

definition js_or :: "json \<Rightarrow> json \<Rightarrow> json" where
  "js_or a b = (if truthy a then a else b)"

text \<open>
  \<^verbatim>\<open>v.name\<close>: reading a property of \<^verbatim>\<open>null\<close> or \<^verbatim>\<open>undefined\<close> throws a TypeError, a
  missing property reads as \<^verbatim>\<open>undefined\<close>. None of the names read by the trigger is a
  built-in property of a string, number, boolean, array or date.
\<close>

definition quoted :: "string \<Rightarrow> string" where
  "quoted name = CHR 0x27 # name @ [CHR 0x27]"

fun get_prop :: "json \<Rightarrow> string \<Rightarrow> js_error + json" where
  "get_prop JNull name =
     Inl (TypeError (''Cannot read properties of null (reading '' @ quoted name @ '')''))"
| "get_prop JUndefined name =
     Inl (TypeError (''Cannot read properties of undefined (reading '' @ quoted name @ '')''))"
| "get_prop (JObj kvs) name = (case map_of kvs name of Some v \<Rightarrow> Inr v | None \<Rightarrow> Inr JUndefined)"
| "get_prop v name = Inr JUndefined"

text \<open>\<^verbatim>\<open>v?.name\<close>: optional chaining never throws.\<close>

definition get_prop_opt :: "json \<Rightarrow> string \<Rightarrow> json" where
  "get_prop_opt v name = (case get_prop v name of Inl e \<Rightarrow> JUndefined | Inr x \<Rightarrow> x)"

text \<open>Sequencing of steps that may throw: the first exception ends the sequence.\<close>

definition bindE :: "js_error + 'a \<Rightarrow> ('a \<Rightarrow> js_error + 'b) \<Rightarrow> js_error + 'b" where
  "bindE m f = (case m of Inl e \<Rightarrow> Inl e | Inr x \<Rightarrow> f x)"

text \<open>\<^verbatim>\<open>s.includes(t)\<close> on strings.\<close>

fun startsWith :: "string \<Rightarrow> string \<Rightarrow> bool" where
  "startsWith s [] = True"
| "startsWith [] (c # t) = False"
| "startsWith (d # s) (c # t) = (d = c \<and> startsWith s t)"

fun includes_str :: "string \<Rightarrow> string \<Rightarrow> bool" where
  "includes_str [] t = (t = [])"
| "includes_str (d # s) t = (startsWith (d # s) t \<or> includes_str s t)"

text \<open>
  \<^verbatim>\<open>Object.keys(v).length\<close>: \<^verbatim>\<open>Object.keys\<close> throws on \<^verbatim>\<open>null\<close> and \<^verbatim>\<open>undefined\<close>, lists the
  indices of an array or a string, and is empty for the other primitives and for a date.
\<close>

fun keys_length :: "json \<Rightarrow> js_error + nat" where
  "keys_length JNull = Inl (TypeError ''Cannot convert undefined or null to object'')"
| "keys_length JUndefined = Inl (TypeError ''Cannot convert undefined or null to object'')"
| "keys_length (JObj kvs) = Inr (length kvs)"
| "keys_length (JArr xs) = Inr (length xs)"
| "keys_length (JStr s) = Inr (length s)"
| "keys_length v = Inr 0"

section \<open>Session configuration\<close>

text \<open>
  The \<^verbatim>\<open>options\<close> collection of the node. The workflow engine delivers typed values; an
  option left out reads as \<^verbatim>\<open>undefined\<close>, which every use below treats like the empty
  string, \<^verbatim>\<open>false\<close> or \<^verbatim>\<open>0\<close> (\<^verbatim>\<open>options.x || default\<close>, \<^verbatim>\<open>if (options.x)\<close>), so an absent
  string option is \<open>''''\<close>, an absent number \<open>0\<close> and an absent flag \<open>False\<close>.
\<close>

record options =
  debug :: bool
  resumeFromDB :: bool
  resumeTokenCollection :: string
  resumeTokenDatabase :: string
  resumeTokenKey :: string
  resumeTokenSaveFrequency :: string
  resumeAfter :: string
  startAtOperationTime :: string
  batchSize :: int
  maxAwaitTimeMS :: int

text \<open>\<^verbatim>\<open>s || d\<close> on strings.\<close>

definition str_or :: "string \<Rightarrow> string \<Rightarrow> string" where
  "str_or s d = (if s \<noteq> [] then s else d)"

text \<open>Lines 377-379: the default name of the checkpoint collection.\<close>

definition defaultResumeTokenCollection :: "string \<Rightarrow> string" where
  "defaultResumeTokenCollection collection = collection @ ''_resume_tokens''"

definition resolveResumeTokenCollection :: "options \<Rightarrow> string \<Rightarrow> string" where
  "resolveResumeTokenCollection opts collection =
     str_or (resumeTokenCollection opts) (defaultResumeTokenCollection collection)"

text \<open>
  Lines 382 and 400-415: the checkpoint key. \<open>database\<close> is the database name resolved
  from the credentials by \<^verbatim>\<open>getDatabaseForConnection\<close>.
\<close>

definition generatedKey :: "string \<Rightarrow> string \<Rightarrow> string" where
  "generatedKey database collection = str_or database ''default'' @ ''.'' @ collection"

definition resolveResumeTokenKey :: "options \<Rightarrow> string \<Rightarrow> string \<Rightarrow> string" where
  "resolveResumeTokenKey opts database collection =
     (let resumeTokenKey0 = str_or (resumeTokenKey opts) [] in
      if resumeFromDB opts \<and>
         (resumeTokenKey0 = [] \<or> includes_str resumeTokenKey0 ''={{'' \<or> resumeTokenKey0 = ''default'')
      then generatedKey database collection
      else resumeTokenKey0)"

section \<open>Session state and the outside world\<close>

text \<open>
  \<^verbatim>\<open>lastSavedToken\<close> is declared \<^verbatim>\<open>string | null\<close>; \<^verbatim>\<open>JSON.stringify\<close> returns a string or
  \<^verbatim>\<open>undefined\<close>. On these values \<^verbatim>\<open>===\<close> is equality.
\<close>

datatype strval = SNull | SUndefined | SStr string

text \<open>The outcome of the driver's \<^verbatim>\<open>replaceOne\<close>: acknowledged with \<^verbatim>\<open>upsertedCount\<close>, or thrown.\<close>

datatype write_result = Acknowledged nat | Rejected js_error

text \<open>
  What one callback invocation reads from outside the program: the clock
  (\<^verbatim>\<open>Date.now()\<close> and \<^verbatim>\<open>new Date()\<close>), \<^verbatim>\<open>Math.random()\<close>, the outcome of the checkpoint write
  (with the \<^verbatim>\<open>useDb\<close> and \<^verbatim>\<open>collection\<close> calls before it) and whether the driver's
  \<^verbatim>\<open>changeStream.close()\<close> and \<^verbatim>\<open>nodeConnection.close()\<close> throw.
\<close>

record env =
  date_now :: int
  new_date :: int
  math_random :: rat
  replaceOne :: write_result
  stream_close :: "js_error option"
  connection_close :: "js_error option"

datatype driver_call = StreamClose | ConnectionClose

text \<open>
  The variables the callbacks close over (\<^verbatim>\<open>changeStream\<close>, \<^verbatim>\<open>nodeConnection\<close> non-null or
  not, \<^verbatim>\<open>isClosing\<close>, \<^verbatim>\<open>lastSavedToken\<close>, \<^verbatim>\<open>lastSaveTime\<close>) and the effects of the session:
  the checkpoint collection as a map from \<^verbatim>\<open>key\<close> to the document stored under it,
  the items passed to \<^verbatim>\<open>this.emit\<close>, the \<^verbatim>\<open>LoggerProxy.error\<close> entries and the close
  calls made on the driver. Debug log lines are not recorded.
\<close>

record trigger_state =
  changeStream :: bool
  nodeConnection :: bool
  isClosing :: bool
  lastSavedToken :: strval
  lastSaveTime :: int
  store :: "string \<rightharpoonup> json"
  emitted :: "json list"
  errors :: "(string \<times> string) list"
  calls :: "driver_call list"

text \<open>Lines 697-708: the values captured for the event handlers.\<close>

record session =
  capturedOptions :: options
  capturedResumeFromDB :: bool
  capturedResumeTokenCollection :: string
  capturedResumeTokenDatabase :: string
  capturedResumeTokenKey :: string
  capturedFinalResumeTokenDatabase :: string
  saveFrequency :: string
  outputFormat :: string

text \<open>
  Lines 556-558 and 793: \<^verbatim>\<open>typeof token === 'string' ? token : JSON.stringify(token)\<close>.
  \<^verbatim>\<open>JSON.stringify\<close> is a parameter: \<open>None\<close> is its result \<^verbatim>\<open>undefined\<close>.
\<close>

definition token_string :: "(json \<Rightarrow> string option) \<Rightarrow> json \<Rightarrow> strval" where
  "token_string stringify tok =
     (case tok of
        JStr s \<Rightarrow> SStr s
      | _ \<Rightarrow> (case stringify tok of Some s \<Rightarrow> SStr s | None \<Rightarrow> SUndefined))"

fun option_string :: "strval \<Rightarrow> string" where
  "option_string (SStr s) = s"
| "option_string v = []"

section \<open>Startup\<close>

text \<open>
  Lines 535-587: loading the checkpoint. \<open>find_throws\<close> is the exception of \<^verbatim>\<open>findOne\<close>
  (or of the calls before it), if any; \<open>db\<close> is the checkpoint collection. The result
  is \<^verbatim>\<open>options\<close> with \<^verbatim>\<open>resumeAfter\<close> overwritten when a token was found, and the error
  entries logged.
\<close>

definition loadResumeToken ::
  "(json \<Rightarrow> string option) \<Rightarrow> js_error option \<Rightarrow> (string \<rightharpoonup> json) \<Rightarrow> string \<Rightarrow> options
     \<Rightarrow> options \<times> (string \<times> string) list" where
  "loadResumeToken stringify find_throws db k opts =
     (if resumeFromDB opts then
        (case find_throws of
           Some ex \<Rightarrow> (opts, [(''Error loading resume token from database:'', message ex)])
         | None \<Rightarrow>
            (let savedToken = (case db k of Some d \<Rightarrow> d | None \<Rightarrow> JNull) in
             if truthy savedToken then
               (case get_prop savedToken ''token'' of
                  Inl ex \<Rightarrow> (opts, [(''Error loading resume token from database:'', message ex)])
                | Inr tok \<Rightarrow>
                    if truthy tok
                    then (opts\<lparr>resumeAfter := option_string (token_string stringify tok)\<rparr>, [])
                    else (opts, []))
             else (opts, [])))
      else (opts, []))"

text \<open>Lines 608-632: the filter pipeline.\<close>

definition build_pipeline :: "string list \<Rightarrow> json \<Rightarrow> json \<Rightarrow> js_error + json list" where
  "build_pipeline operationTypes matchFilter projection =
     (let p1 = (if length operationTypes > 0
                then [JObj [(''$match'',
                        JObj [(''operationType'', JObj [(''$in'', JArr (map JStr operationTypes))])])]]
                else [])
      in bindE (keys_length matchFilter) (\<lambda>n.
           let p2 = (if n > 0 then p1 @ [JObj [(''$match'', matchFilter)]] else p1)
           in bindE (keys_length projection) (\<lambda>m.
                Inr (if m > 0 then p2 @ [JObj [(''$project'', projection)]] else p2))))"

text \<open>
  Lines 634-661: the stream options. A field that is \<open>None\<close> is not set (or set to
  \<^verbatim>\<open>undefined\<close>); \<open>cs_startAtOperationTime = Some s\<close> is \<^verbatim>\<open>new Date(s)\<close>. \<^verbatim>\<open>JSON.parse\<close> is a
  parameter: \<open>None\<close> when it throws.
\<close>

record stream_options =
  cs_fullDocument :: "string option"
  cs_batchSize :: int
  cs_maxAwaitTimeMS :: int
  cs_resumeAfter :: "json option"
  cs_startAtOperationTime :: "string option"

definition build_options :: "(string \<Rightarrow> json option) \<Rightarrow> string \<Rightarrow> options \<Rightarrow> stream_options" where
  "build_options json_parse fullDocument opts =
     \<lparr> cs_fullDocument = (if fullDocument \<noteq> ''default'' then Some fullDocument else None),
       cs_batchSize = (if batchSize opts \<noteq> 0 then batchSize opts else 100),
       cs_maxAwaitTimeMS = (if maxAwaitTimeMS opts \<noteq> 0 then maxAwaitTimeMS opts else 1000),
       cs_resumeAfter =
         (if resumeAfter opts \<noteq> [] then
            (case json_parse (resumeAfter opts) of
               Some v \<Rightarrow> Some v
             | None \<Rightarrow> Some (JStr (resumeAfter opts)))
          else None),
       cs_startAtOperationTime =
         (if startAtOperationTime opts \<noteq> [] then Some (startAtOperationTime opts) else None) \<rparr>"

text \<open>Lines 684-695: the token string cached for comparison.\<close>

definition loadedTokenString :: "options \<Rightarrow> strval" where
  "loadedTokenString opts =
     (if resumeFromDB opts \<and> resumeAfter opts \<noteq> [] then SStr (resumeAfter opts) else SNull)"

text \<open>
  The trigger from line 375 to line 708, once the dedicated connection is open:
  \<open>opts0\<close> are the options as configured, \<open>database\<close> the resolved database name. An
  exception (of \<^verbatim>\<open>Object.keys\<close>) ends the startup.
\<close>

record subscription =
  sub_session :: session
  sub_pipeline :: "json list"
  sub_options :: stream_options
  sub_state :: trigger_state

definition trigger_start ::
  "(json \<Rightarrow> string option) \<Rightarrow> (string \<Rightarrow> json option) \<Rightarrow> options \<Rightarrow> string \<Rightarrow> string
     \<Rightarrow> string list \<Rightarrow> json \<Rightarrow> json \<Rightarrow> string \<Rightarrow> string
     \<Rightarrow> js_error option \<Rightarrow> (string \<rightharpoonup> json) \<Rightarrow> js_error + subscription" where
  "trigger_start stringify json_parse opts0 database collection
       operationTypes matchFilter projection fullDocument outputFormat0 find_throws db =
     (let resumeTokenCollection0 = resolveResumeTokenCollection opts0 collection;
          resumeTokenDatabase0 = str_or (resumeTokenDatabase opts0) [];
          resumeTokenKey0 = resolveResumeTokenKey opts0 database collection;
          finalResumeTokenDatabase = str_or resumeTokenDatabase0 database;
          (opts, logged) = loadResumeToken stringify find_throws db resumeTokenKey0 opts0
      in bindE (build_pipeline operationTypes matchFilter projection) (\<lambda>pipeline.
           Inr \<lparr> sub_session =
                   \<lparr> capturedOptions = opts,
                     capturedResumeFromDB = resumeFromDB opts0,
                     capturedResumeTokenCollection = resumeTokenCollection0,
                     capturedResumeTokenDatabase = resumeTokenDatabase0,
                     capturedResumeTokenKey = resumeTokenKey0,
                     capturedFinalResumeTokenDatabase = finalResumeTokenDatabase,
                     saveFrequency = str_or (resumeTokenSaveFrequency opts) ''smart'',
                     outputFormat = outputFormat0 \<rparr>,
                 sub_pipeline = pipeline,
                 sub_options = build_options json_parse fullDocument opts,
                 sub_state =
                   \<lparr> changeStream = True,
                     nodeConnection = True,
                     isClosing = False,
                     lastSavedToken = loadedTokenString opts,
                     lastSaveTime = 0,
                     store = db,
                     emitted = [],
                     errors = logged,
                     calls = [] \<rparr> \<rparr>))"

section \<open>The change handler\<close>

text \<open>
  Lines 716-732: the \<^verbatim>\<open>switch\<close> on the output format. \<open>now\<close> is the value of
  \<^verbatim>\<open>new Date()\<close>. In an object literal the properties are evaluated in order, so the first
  property read decides whether the literal throws.
\<close>

definition project :: "string \<Rightarrow> int \<Rightarrow> json \<Rightarrow> js_error + json" where
  "project fmt now change =
     (if fmt = ''document'' then
        bindE (get_prop change ''fullDocument'') (\<lambda>fullDoc.
          if truthy fullDoc then Inr fullDoc
          else bindE (get_prop change ''documentKey'') (\<lambda>documentKey.
                 Inr (js_or documentKey (JObj []))))
      else if fmt = ''simplified'' then
        bindE (get_prop change ''operationType'') (\<lambda>operationType.
        bindE (get_prop change ''documentKey'') (\<lambda>documentKey.
        bindE (get_prop change ''fullDocument'') (\<lambda>fullDoc.
        bindE (get_prop change ''updateDescription'') (\<lambda>updateDescription.
        bindE (get_prop change ''clusterTime'') (\<lambda>clusterTime.
          Inr (JObj [(''operationType'', js_or operationType (JStr ''unknown'')),
                     (''documentKey'', js_or documentKey (JObj [])),
                     (''document'', js_or fullDoc JNull),
                     (''updateDescription'', js_or updateDescription JNull),
                     (''timestamp'', js_or clusterTime (JDate now))]))))))
      else Inr (js_or change (JObj [])))"

text \<open>Lines 734-741: the guard on the projected value.\<close>

definition no_data_record :: "int \<Rightarrow> json \<Rightarrow> json" where
  "no_data_record now change =
     JObj [(''operationType'', js_or (get_prop_opt change ''operationType'') (JStr ''unknown'')),
           (''timestamp'', JDate now),
           (''error'', JStr ''No data available'')]"

definition ensure_valid :: "int \<Rightarrow> json \<Rightarrow> json \<Rightarrow> json" where
  "ensure_valid now change outputData =
     (if outputData = JNull \<or> outputData = JUndefined then no_data_record now change
      else outputData)"

text \<open>Lines 753-758: the record emitted by the \<^verbatim>\<open>catch\<close> block.\<close>

definition processing_error_record :: "int \<Rightarrow> js_error \<Rightarrow> json" where
  "processing_error_record now ex =
     JObj [(''operationType'', JStr ''error''),
           (''error'', JStr (message ex)),
           (''timestamp'', JDate now),
           (''type'', JStr ''processing_error'')]"

text \<open>
  \<^verbatim>\<open>this.helpers.returnJsonArray\<close> is the workflow engine's helper, not code of this
  repository. For each element \<^verbatim>\<open>data\<close> of its argument it gives one item:
  \<^verbatim>\<open>{...data, json: data.json}\<close> when \<^verbatim>\<open>data?.json\<close> is truthy ("we already have the JSON
  key so avoid double wrapping"), and \<^verbatim>\<open>{json: data}\<close> otherwise. Only an object can have
  a truthy \<^verbatim>\<open>json\<close> property, and the copy of an object with \<^verbatim>\<open>json\<close> set to its own value
  has the properties and values of the object. The record a workflow receives from an
  item is its \<^verbatim>\<open>json\<close> property.
\<close>

definition json_item :: "json \<Rightarrow> json" where
  "json_item data =
     (if truthy (get_prop_opt data ''json'') then data else JObj [(''json'', data)])"

definition returnJsonArray :: "json list \<Rightarrow> json list" where
  "returnJsonArray jsonData = map json_item jsonData"

text \<open>
  Lines 713-748, the \<^verbatim>\<open>try\<close> block: the state it reached and the exception that ended
  it, if any. \<^verbatim>\<open>this.emit([this.helpers.returnJsonArray([outputData])])\<close> appends the items
  of the helper to the emitted items. The sampled debug line reads
  \<^verbatim>\<open>change.operationType\<close> after the emit.
\<close>

definition change_try :: "session \<Rightarrow> env \<Rightarrow> json \<Rightarrow> trigger_state \<Rightarrow> trigger_state \<times> js_error option" where
  "change_try ses e change st =
     (case project (outputFormat ses) (new_date e) change of
        Inl ex \<Rightarrow> (st, Some ex)
      | Inr outputData \<Rightarrow>
          (let st1 = st\<lparr>emitted := emitted st @
                             returnJsonArray [ensure_valid (new_date e) change outputData]\<rparr>
           in if debug (capturedOptions ses) \<and> math_random e < 1 / 10 then
                (case get_prop change ''operationType'' of
                   Inl ex \<Rightarrow> (st1, Some ex)
                 | Inr v \<Rightarrow> (st1, None))
              else (st1, None)))"

text \<open>Lines 712-760: the handler of \<^verbatim>\<open>'change'\<close>, with its \<^verbatim>\<open>catch\<close> block.\<close>

definition on_change :: "session \<Rightarrow> env \<Rightarrow> json \<Rightarrow> trigger_state \<Rightarrow> trigger_state" where
  "on_change ses e change st =
     (case change_try ses e change st of
        (st1, None) \<Rightarrow> st1
      | (st1, Some ex) \<Rightarrow>
          st1\<lparr>errors := errors st1 @ [(''Error processing change stream event'', message ex)],
              emitted := emitted st1 @
                           returnJsonArray [processing_error_record (new_date e) ex]\<rparr>)"

text \<open>The change events of a session, handled one after the other.\<close>

fun run_changes :: "session \<Rightarrow> trigger_state \<Rightarrow> (env \<times> json) list \<Rightarrow> trigger_state" where
  "run_changes ses st [] = st"
| "run_changes ses st ((e, change) # evs) = run_changes ses (on_change ses e change st) evs"

text \<open>
  Lines 762-775: the handler of the stream's \<^verbatim>\<open>'error'\<close>. The ISO string of the timestamp
  is represented by the date.
\<close>

definition on_stream_error :: "session \<Rightarrow> env \<Rightarrow> js_error \<Rightarrow> trigger_state \<Rightarrow> trigger_state" where
  "on_stream_error ses e err st =
     (if \<not> isClosing st then
        (let st1 = st\<lparr>errors := errors st @ [(''Change stream error'', message err)]\<rparr>
         in if debug (capturedOptions ses)
            then st1\<lparr>emitted := emitted st1 @
                   returnJsonArray
                     [JObj [(''error'', JStr (message err)),
                            (''type'', JStr ''change_stream_error''),
                            (''timestamp'', JDate (new_date e))]]\<rparr>
            else st1)
      else st)"

section \<open>The checkpoint handler\<close>

datatype save_outcome = Saved | Skipped | SaveFailed | NotEnabled

text \<open>Lines 822-830: the document written under the checkpoint key.\<close>

definition checkpoint_record :: "string \<Rightarrow> json \<Rightarrow> int \<Rightarrow> json" where
  "checkpoint_record k tok now =
     JObj [(''key'', JStr k), (''token'', tok), (''updatedAt'', JDate now)]"

text \<open>
  Lines 791-839, the \<^verbatim>\<open>try\<close> block, for a session with checkpointing enabled and an open
  connection: the exception of the write, or the outcome and the state. \<^verbatim>\<open>replaceOne\<close>
  with \<^verbatim>\<open>upsert\<close> replaces the document stored under the key or inserts it.
\<close>

definition save_try ::
  "(json \<Rightarrow> string option) \<Rightarrow> session \<Rightarrow> env \<Rightarrow> json \<Rightarrow> trigger_state
     \<Rightarrow> js_error + save_outcome \<times> trigger_state" where
  "save_try stringify ses e tok st =
     (let tokenString = token_string stringify tok;
          now = date_now e
      in if saveFrequency ses = ''smart'' \<and> lastSavedToken st = tokenString then Inr (Skipped, st)
         else if saveFrequency ses = ''throttled_5s'' \<and> now - lastSaveTime st < 5000
         then Inr (Skipped, st)
         else (case replaceOne e of
                 Rejected ex \<Rightarrow> Inl ex
               | Acknowledged upsertedCount \<Rightarrow>
                   Inr (Saved,
                        st\<lparr>store := (store st)(capturedResumeTokenKey ses \<mapsto>
                                      checkpoint_record (capturedResumeTokenKey ses) tok (new_date e)),
                           lastSavedToken := tokenString,
                           lastSaveTime := now\<rparr>)))"

text \<open>Lines 783-850: the handler of \<^verbatim>\<open>'resumeTokenChanged'\<close>, with its \<^verbatim>\<open>catch\<close> block.\<close>

definition resumeTokenChanged ::
  "(json \<Rightarrow> string option) \<Rightarrow> session \<Rightarrow> env \<Rightarrow> json \<Rightarrow> trigger_state
     \<Rightarrow> save_outcome \<times> trigger_state" where
  "resumeTokenChanged stringify ses e tok st =
     (if capturedResumeFromDB ses \<and> nodeConnection st then
        (case save_try stringify ses e tok st of
           Inl ex \<Rightarrow>
             (SaveFailed,
              st\<lparr>errors := errors st @ [(''Error saving resume token to database'', message ex)]\<rparr>)
         | Inr r \<Rightarrow> r)
      else (NotEnabled, st))"

text \<open>
  The token events of a session processed sequentially: the handler is asynchronous and
  suspends at the write, and here each invocation has run to its end before the next
  event is delivered. The result is the outcomes in order and the final state.
\<close>

fun run_tokens ::
  "(json \<Rightarrow> string option) \<Rightarrow> session \<Rightarrow> trigger_state \<Rightarrow> (env \<times> json) list
     \<Rightarrow> save_outcome list \<times> trigger_state" where
  "run_tokens stringify ses st [] = ([], st)"
| "run_tokens stringify ses st ((e, tok) # evs) =
     (let (out, st1) = resumeTokenChanged stringify ses e tok st;
          (outs, st2) = run_tokens stringify ses st1 evs
      in (out # outs, st2))"

text \<open>The clock readings of the events whose write was persisted.\<close>

fun saved_times :: "save_outcome list \<Rightarrow> (env \<times> json) list \<Rightarrow> int list" where
  "saved_times (out # outs) ((e, tok) # evs) =
     (if out = Saved then date_now e # saved_times outs evs else saved_times outs evs)"
| "saved_times outs evs = []"

subsection \<open>The handler as it suspends\<close>







section \<open>Shutdown\<close>

text \<open>
  Lines 457-465, the \<^verbatim>\<open>try\<close> block of \<^verbatim>\<open>closeFunction\<close>: the state it reached and the
  exception that ended it, if any.
\<close>

definition close_try :: "env \<Rightarrow> trigger_state \<Rightarrow> trigger_state \<times> js_error option" where
  "close_try e st =
     (let (st1, thrown) =
            (if changeStream st then
               (case stream_close e of
                  Some ex \<Rightarrow> (st\<lparr>calls := calls st @ [StreamClose]\<rparr>, Some ex)
                | None \<Rightarrow> (st\<lparr>calls := calls st @ [StreamClose], changeStream := False\<rparr>, None))
             else (st, None))
      in case thrown of
           Some ex \<Rightarrow> (st1, Some ex)
         | None \<Rightarrow>
             (if nodeConnection st1 then
                (case connection_close e of
                   Some ex \<Rightarrow> (st1\<lparr>calls := calls st1 @ [ConnectionClose]\<rparr>, Some ex)
                 | None \<Rightarrow>
                     (st1\<lparr>calls := calls st1 @ [ConnectionClose], nodeConnection := False\<rparr>, None))
              else (st1, None)))"

text \<open>Lines 449-469: \<^verbatim>\<open>closeFunction\<close>.\<close>

definition closeFunction :: "env \<Rightarrow> trigger_state \<Rightarrow> trigger_state" where
  "closeFunction e st =
     (if isClosing st then st
      else (case close_try e (st\<lparr>isClosing := True\<rparr>) of
              (st1, None) \<Rightarrow> st1
            | (st1, Some ex) \<Rightarrow>
                st1\<lparr>errors := errors st1 @ [(''Error closing MongoDB connection'', message ex)]\<rparr>))"

text \<open>
  Persisted writes that are at least 5000 ms apart, the first of them at least 5000 ms
  after \<open>t\<close>.
\<close>

fun spaced :: "int \<Rightarrow> int list \<Rightarrow> bool" where
  "spaced t [] = True"
| "spaced t (x # xs) = (5000 \<le> x - t \<and> spaced x xs)"

section \<open>Sample inputs\<close>

text \<open>
  Two resume tokens as the driver delivers them, their serialisations, and functions
  that agree with \<^verbatim>\<open>JSON.stringify\<close> on the two tokens and with \<^verbatim>\<open>JSON.parse\<close> on the two
  serialisations and on every string that \<^verbatim>\<open>JSON.parse\<close> rejects. They stand for the two
  built-in functions only at these arguments.
\<close>

definition sample_token :: json where
  "sample_token = JObj [(''_data'', JStr ''8263'')]"

definition other_token :: json where
  "other_token = JObj [(''_data'', JStr ''8264'')]"

definition sample_token_text :: string where
  \<open>sample_token_text = ''{"_data":"8263"}''\<close>

definition other_token_text :: string where
  \<open>other_token_text = ''{"_data":"8264"}''\<close>

definition stringify_sample :: "json \<Rightarrow> string option" where
  "stringify_sample v =
     (if v = sample_token then Some sample_token_text
      else if v = other_token then Some other_token_text
      else None)"

definition json_parse_sample :: "string \<Rightarrow> json option" where
  "json_parse_sample s =
     (if s = sample_token_text then Some sample_token
      else if s = other_token_text then Some other_token
      else None)"

text \<open>Checkpointing enabled, every other option left at its default.\<close>

definition sample_options :: options where
  "sample_options =
     \<lparr> debug = False, resumeFromDB = True, resumeTokenCollection = [],
       resumeTokenDatabase = [], resumeTokenKey = [], resumeTokenSaveFrequency = [],
       resumeAfter = [], startAtOperationTime = [], batchSize = 0, maxAwaitTimeMS = 0 \<rparr>"

definition sample_session :: session where
  "sample_session =
     \<lparr> capturedOptions = sample_options,
       capturedResumeFromDB = True,
       capturedResumeTokenCollection = ''orders_resume_tokens'',
       capturedResumeTokenDatabase = [],
       capturedResumeTokenKey = ''shop.orders'',
       capturedFinalResumeTokenDatabase = ''shop'',
       saveFrequency = ''smart'',
       outputFormat = ''simplified'' \<rparr>"

definition sample_state :: trigger_state where
  "sample_state =
     \<lparr> changeStream = True, nodeConnection = True, isClosing = False,
       lastSavedToken = SNull, lastSaveTime = 0, store = Map.empty,
       emitted = [], errors = [], calls = [] \<rparr>"

definition sample_env :: env where
  "sample_env =
     \<lparr> date_now = 1700000000000, new_date = 1700000000000, math_random = 1 / 2,
       replaceOne = Acknowledged 1, stream_close = None, connection_close = None \<rparr>"




text \<open>A checkpoint collection that holds the sample token under the key of the session.\<close>

definition sample_db :: "string \<rightharpoonup> json" where
  "sample_db = [''shop.orders'' \<mapsto> checkpoint_record ''shop.orders'' sample_token 1690000000000]"

definition sample_subscription :: subscription where
  "sample_subscription =
     projr (trigger_start stringify_sample json_parse_sample sample_options ''shop'' ''orders''
              [''insert''] (JObj []) (JObj []) ''default'' ''simplified'' None sample_db)"

text \<open>
  Three token events under the policy \<^verbatim>\<open>throttled_5s\<close>: at a first instant, one second
  later and six seconds later.
\<close>

definition throttled_session :: session where
  "throttled_session = sample_session\<lparr>saveFrequency := ''throttled_5s''\<rparr>"

definition sample_events :: "(env \<times> json) list" where
  "sample_events =
     [(sample_env, sample_token),
      (sample_env\<lparr>date_now := 1700000001000\<rparr>, other_token),
      (sample_env\<lparr>date_now := 1700000006000\<rparr>, other_token)]"

text \<open>An invocation whose checkpoint write is rejected by the driver.\<close>

definition failing_env :: env where
  "failing_env = sample_env\<lparr>replaceOne := Rejected (DriverError ''connection reset'')\<rparr>"

text \<open>A shutdown in which \<^verbatim>\<open>changeStream.close()\<close> throws.\<close>

definition stream_close_fails_env :: env where
  "stream_close_fails_env = sample_env\<lparr>stream_close := Some (DriverError ''cursor kill failed'')\<rparr>"

section \<open>Sample inputs, evaluated\<close>

lemma sample_token_string: "token_string stringify_sample sample_token = SStr sample_token_text"
  by (simp add: token_string_def stringify_sample_def sample_token_def)

lemma other_token_string: "token_string stringify_sample other_token = SStr other_token_text"
  by (simp add: token_string_def stringify_sample_def sample_token_def other_token_def)

lemma sample_texts_differ: "sample_token_text \<noteq> other_token_text"
  by (simp add: sample_token_text_def other_token_text_def)

lemma sample_token_text_nonempty: "sample_token_text \<noteq> []"
  by (simp add: sample_token_text_def)

lemma sample_token_truthy: "truthy sample_token"
  by (simp add: sample_token_def)

lemma sample_key: "resolveResumeTokenKey sample_options ''shop'' ''orders'' = ''shop.orders''"
  by (simp add: resolveResumeTokenKey_def sample_options_def generatedKey_def str_or_def)

lemma sample_load:
  "loadResumeToken stringify_sample None sample_db ''shop.orders'' sample_options
     = (sample_options\<lparr>resumeAfter := sample_token_text\<rparr>, [])"
  by (simp add: loadResumeToken_def sample_db_def checkpoint_record_def sample_options_def
      sample_token_string sample_token_truthy)

lemma sample_trigger_start:
  "trigger_start stringify_sample json_parse_sample sample_options ''shop'' ''orders''
       [''insert''] (JObj []) (JObj []) ''default'' ''simplified'' None sample_db
     = Inr sample_subscription"
  by (simp add: sample_subscription_def trigger_start_def sample_key sample_load
      build_pipeline_def bindE_def Let_def)

section \<open>The event pipeline\<close>














text \<open>
  An exception of the projection is caught: the handler emits the error record and
  nothing else, and the events after it are handled from the resulting state.
\<close>

lemma on_change_projection_error:
  assumes "project (outputFormat ses) (new_date e) change = Inl ex"
  shows "on_change ses e change st =
     st\<lparr>errors := errors st @ [(''Error processing change stream event'', message ex)],
        emitted := emitted st @ [JObj [(''json'', processing_error_record (new_date e) ex)]]\<rparr>"
  using assms
  by (simp add: on_change_def change_try_def returnJsonArray_def json_item_def
      processing_error_record_def get_prop_opt_def)

lemma run_changes_append:
  "run_changes ses st (evs1 @ evs2) = run_changes ses (run_changes ses st evs1) evs2"
  by (induction evs1 arbitrary: st) auto

text \<open>
  C4. The handler's \<^verbatim>\<open>try\<close> block also holds the emit and the sampled debug line, which
  reads \<^verbatim>\<open>change.operationType\<close> without the \<^verbatim>\<open>?.\<close> of the guard above it. For the event
  \<^verbatim>\<open>null\<close> with the format \<^verbatim>\<open>full\<close>, debug on and the sample hit, the handler first emits
  the normal record \<^verbatim>\<open>{}\<close> and then, for the exception of the debug line, the error
  record: two items, where an exception of the projection gives the error record
  alone.
\<close>

theorem on_change_null_event_debug_two_records:
  "emitted (on_change (sample_session\<lparr>outputFormat := ''full'',
                          capturedOptions := sample_options\<lparr>debug := True\<rparr>\<rparr>)
              (sample_env\<lparr>math_random := 1 / 20\<rparr>) JNull sample_state) =
     [JObj [(''json'', JObj [])],
      JObj [(''json'',
        JObj [(''operationType'', JStr ''error''),
              (''error'', JStr ''Cannot read properties of null (reading 'operationType')''),
              (''timestamp'', JDate 1700000000000),
              (''type'', JStr ''processing_error'')])]]"
  by (simp add: on_change_def change_try_def project_def js_or_def ensure_valid_def
      processing_error_record_def quoted_def sample_session_def sample_options_def
      sample_env_def sample_state_def returnJsonArray_def json_item_def get_prop_opt_def)

section \<open>The subscription builder\<close>

text \<open>
  C8. When \<^verbatim>\<open>Object.keys\<close> accepts the filter and the projection (they have \<open>n\<close> and
  \<open>m\<close> keys), the pipeline is the operation-type stage if the list of operation types
  is not empty, then the filter stage if \<open>n > 0\<close>, then the projection stage if
  \<open>m > 0\<close>, in this order and nothing else.
\<close>

theorem pipeline_stage_order:
  assumes "keys_length matchFilter = Inr n" and "keys_length projection = Inr m"
  shows "build_pipeline operationTypes matchFilter projection =
     Inr ((if operationTypes \<noteq> []
           then [JObj [(''$match'',
                   JObj [(''operationType'', JObj [(''$in'', JArr (map JStr operationTypes))])])]]
           else [])
          @ (if n > 0 then [JObj [(''$match'', matchFilter)]] else [])
          @ (if m > 0 then [JObj [(''$project'', projection)]] else []))"
  using assms by (simp add: build_pipeline_def bindE_def Let_def)

theorem pipeline_stage_order_witness:
  "keys_length (JObj [(''fullDocument.status'', JStr ''active'')]) = Inr 1
   \<and> keys_length (JObj [(''fullDocument.name'', JNum 1)]) = Inr 1
   \<and> build_pipeline [''insert'', ''update'']
      (JObj [(''fullDocument.status'', JStr ''active'')])
      (JObj [(''fullDocument.name'', JNum 1)]) =
     Inr [JObj [(''$match'',
            JObj [(''operationType'', JObj [(''$in'', JArr [JStr ''insert'', JStr ''update''])])])],
          JObj [(''$match'', JObj [(''fullDocument.status'', JStr ''active'')])],
          JObj [(''$project'', JObj [(''fullDocument.name'', JNum 1)])]]"
  using pipeline_stage_order [of "JObj [(''fullDocument.status'', JStr ''active'')]" 1
      "JObj [(''fullDocument.name'', JNum 1)]" 1 "[''insert'', ''update'']"]
  by simp

text \<open>
  C5, as the code has it. When a resume token and a start timestamp are both present,
  the stream options hold both: \<^verbatim>\<open>resumeAfter\<close> is the parsed token when \<^verbatim>\<open>JSON.parse\<close>
  accepts the token string and the string itself otherwise, and \<^verbatim>\<open>startAtOperationTime\<close>
  is the date of the configured timestamp. A checkpoint loaded at startup has replaced
  \<^verbatim>\<open>options.resumeAfter\<close> before the options are built.
\<close>

theorem resume_options_both_set:
  assumes "resumeAfter opts \<noteq> []" and "startAtOperationTime opts \<noteq> []"
  shows "cs_resumeAfter (build_options json_parse fullDocument opts) =
           Some (case json_parse (resumeAfter opts) of
                   Some v \<Rightarrow> v
                 | None \<Rightarrow> JStr (resumeAfter opts))
     \<and> cs_startAtOperationTime (build_options json_parse fullDocument opts) =
           Some (startAtOperationTime opts)"
  using assms by (simp add: build_options_def split: option.splits)

text \<open>
  The hexadecimal token string \<^verbatim>\<open>8263A1\<close>, which \<^verbatim>\<open>JSON.parse\<close> rejects, is passed as it is,
  beside the timestamp.
\<close>

theorem resume_options_both_set_witness:
  "resumeAfter (sample_options\<lparr>resumeAfter := ''8263A1'',
                   startAtOperationTime := ''2024-01-01T00:00:00Z''\<rparr>) \<noteq> []
   \<and> startAtOperationTime (sample_options\<lparr>resumeAfter := ''8263A1'',
                   startAtOperationTime := ''2024-01-01T00:00:00Z''\<rparr>) \<noteq> []
   \<and> cs_resumeAfter (build_options json_parse_sample ''default''
        (sample_options\<lparr>resumeAfter := ''8263A1'',
                        startAtOperationTime := ''2024-01-01T00:00:00Z''\<rparr>)) = Some (JStr ''8263A1'')
   \<and> cs_startAtOperationTime (build_options json_parse_sample ''default''
        (sample_options\<lparr>resumeAfter := ''8263A1'',
                        startAtOperationTime := ''2024-01-01T00:00:00Z''\<rparr>))
       = Some ''2024-01-01T00:00:00Z''"
  using resume_options_both_set [of "sample_options\<lparr>resumeAfter := ''8263A1'',
      startAtOperationTime := ''2024-01-01T00:00:00Z''\<rparr>" json_parse_sample "''default''"]
  by (simp add: json_parse_sample_def sample_token_text_def other_token_text_def)

text \<open>
  With the sample token and a start timestamp both configured, the start timestamp is
  in the stream options beside the parsed token: the token does not displace it.
\<close>

theorem resume_precedence_counterexample:
  "cs_resumeAfter (build_options json_parse_sample ''default''
        (sample_options\<lparr>resumeAfter := sample_token_text,
                        startAtOperationTime := ''2024-01-01T00:00:00Z''\<rparr>)) = Some sample_token
   \<and> cs_startAtOperationTime (build_options json_parse_sample ''default''
        (sample_options\<lparr>resumeAfter := sample_token_text,
                        startAtOperationTime := ''2024-01-01T00:00:00Z''\<rparr>)) \<noteq> None"
  by (simp add: build_options_def json_parse_sample_def sample_token_text_nonempty)

section \<open>The checkpoint store\<close>

lemma run_tokens_Cons:
  "run_tokens f ses st ((e, tok) # evs) =
     (fst (resumeTokenChanged f ses e tok st)
        # fst (run_tokens f ses (snd (resumeTokenChanged f ses e tok st)) evs),
      snd (run_tokens f ses (snd (resumeTokenChanged f ses e tok st)) evs))"
  by (simp split: prod.splits)

lemma saved_step:
  assumes "fst (resumeTokenChanged f ses e tok st) = Saved"
  shows "lastSavedToken (snd (resumeTokenChanged f ses e tok st)) = token_string f tok
     \<and> lastSaveTime (snd (resumeTokenChanged f ses e tok st)) = date_now e
     \<and> store (snd (resumeTokenChanged f ses e tok st)) (capturedResumeTokenKey ses)
         = Some (checkpoint_record (capturedResumeTokenKey ses) tok (new_date e))"
  using assms
  by (auto simp: resumeTokenChanged_def save_try_def Let_def split: write_result.splits if_splits)

lemma not_saved_step:
  assumes "fst (resumeTokenChanged f ses e tok st) \<noteq> Saved"
  shows "lastSavedToken (snd (resumeTokenChanged f ses e tok st)) = lastSavedToken st
     \<and> lastSaveTime (snd (resumeTokenChanged f ses e tok st)) = lastSaveTime st
     \<and> store (snd (resumeTokenChanged f ses e tok st)) = store st"
  using assms
  by (auto simp: resumeTokenChanged_def save_try_def Let_def split: write_result.splits if_splits)



subsection \<open>The policy \<^verbatim>\<open>smart\<close>\<close>



lemma smart_step:
  assumes "saveFrequency ses = ''smart''" "capturedResumeFromDB ses" "nodeConnection st"
  shows "(fst (resumeTokenChanged f ses e tok st) = Skipped)
           = (lastSavedToken st = token_string f tok)"
  using assms
  by (simp add: resumeTokenChanged_def save_try_def Let_def split: write_result.splits)






subsection \<open>The policy \<^verbatim>\<open>throttled_5s\<close>\<close>

lemma throttled_step:
  assumes "saveFrequency ses = ''throttled_5s''"
    and "fst (resumeTokenChanged f ses e tok st) = Saved"
  shows "5000 \<le> date_now e - lastSaveTime st"
  using assms
  by (auto simp: resumeTokenChanged_def save_try_def Let_def split: write_result.splits if_splits)

lemma throttled_skip:
  assumes "saveFrequency ses = ''throttled_5s''" "capturedResumeFromDB ses" "nodeConnection st"
    and "date_now e - lastSaveTime st < 5000"
  shows "resumeTokenChanged f ses e tok st = (Skipped, st)"
  using assms
  by (simp add: resumeTokenChanged_def save_try_def Let_def)

lemma throttled_spaced:
  assumes "saveFrequency ses = ''throttled_5s''"
  shows "spaced (lastSaveTime st) (saved_times (fst (run_tokens f ses st evs)) evs)"
proof (induction evs arbitrary: st)
  case Nil
  show ?case by simp
next
  case (Cons ev evs)
  obtain e tok where ev: "ev = (e, tok)" by (cases ev)
  let ?r = "resumeTokenChanged f ses e tok st"
  show ?case
  proof (cases "fst ?r = Saved")
    case True
    then show ?thesis
      using Cons.IH [of "snd ?r"] throttled_step [OF assms True] saved_step [OF True]
      by (simp add: ev run_tokens_Cons del: run_tokens.simps(2))
  next
    case False
    then show ?thesis
      using Cons.IH [of "snd ?r"] not_saved_step [OF False]
      by (simp add: ev run_tokens_Cons del: run_tokens.simps(2))
  qed
qed

lemma spaced_all: "spaced t xs \<Longrightarrow> x \<in> set xs \<Longrightarrow> 5000 \<le> x - t"
  by (induction xs arbitrary: t) fastforce+

lemma spaced_nth: "spaced t xs \<Longrightarrow> i < j \<Longrightarrow> j < length xs \<Longrightarrow> 5000 \<le> xs ! j - xs ! i"
proof (induction xs arbitrary: t i j)
  case Nil
  then show ?case by simp
next
  case (Cons x xs)
  obtain j' where j: "j = Suc j'" using Cons.prems(2) by (cases j) auto
  show ?case
  proof (cases i)
    case 0
    have "xs ! j' \<in> set xs" using Cons.prems(3) j by simp
    then show ?thesis using spaced_all [of x xs] Cons.prems(1) by (simp add: 0 j)
  next
    case (Suc i')
    then show ?thesis using Cons.IH [of x i' j'] Cons.prems by (simp add: j)
  qed
qed

text \<open>
  C2. With the policy \<^verbatim>\<open>throttled_5s\<close>, checkpointing enabled and the connection open, an
  event that comes less than 5000 ms after \<^verbatim>\<open>lastSaveTime\<close> is skipped and changes
  nothing; \<^verbatim>\<open>lastSaveTime\<close> changes only when the write succeeded, and then it is the
  clock reading of that event. So in a session whose token events are processed
  sequentially, the clock readings of any two persisted writes (all under the one key
  of the session) are at least 5000 ms apart, however many events come in between.
\<close>

theorem throttled_policy:
  assumes "saveFrequency ses = ''throttled_5s''" and "capturedResumeFromDB ses"
    and "nodeConnection st"
  shows "(date_now e - lastSaveTime st < 5000 \<longrightarrow>
            resumeTokenChanged f ses e tok st = (Skipped, st))
     \<and> (lastSaveTime (snd (resumeTokenChanged f ses e tok st)) \<noteq> lastSaveTime st \<longrightarrow>
            fst (resumeTokenChanged f ses e tok st) = Saved)
     \<and> (fst (resumeTokenChanged f ses e tok st) = Saved \<longrightarrow>
            lastSaveTime (snd (resumeTokenChanged f ses e tok st)) = date_now e)
     \<and> (\<forall>evs i j. i < j \<and> j < length (saved_times (fst (run_tokens f ses st evs)) evs) \<longrightarrow>
            5000 \<le> saved_times (fst (run_tokens f ses st evs)) evs ! j
                     - saved_times (fst (run_tokens f ses st evs)) evs ! i)"
  using throttled_skip [OF assms] saved_step [of f ses e tok st] not_saved_step [of f ses e tok st]
    spaced_nth [OF throttled_spaced [OF assms(1)]]
  by blast

lemma sample_events_outcomes:
  "fst (run_tokens stringify_sample throttled_session sample_state sample_events)
     = [Saved, Skipped, Saved]"
  by (simp add: sample_events_def run_tokens_Cons resumeTokenChanged_def save_try_def Let_def
      throttled_session_def sample_session_def sample_state_def sample_env_def
      del: run_tokens.simps(2))

text \<open>
  The event one second after a save is skipped; the two persisted writes of the three
  sample events are 6000 ms apart.
\<close>

theorem throttled_policy_witness:
  "saveFrequency throttled_session = ''throttled_5s'' \<and> capturedResumeFromDB throttled_session
   \<and> nodeConnection sample_state
   \<and> resumeTokenChanged stringify_sample throttled_session
        (sample_env\<lparr>date_now := 1000\<rparr>) other_token sample_state = (Skipped, sample_state)
   \<and> saved_times (fst (run_tokens stringify_sample throttled_session sample_state sample_events))
        sample_events = [1700000000000, 1700000006000]
   \<and> 5000 \<le> saved_times (fst (run_tokens stringify_sample throttled_session sample_state
                  sample_events)) sample_events ! 1
             - saved_times (fst (run_tokens stringify_sample throttled_session sample_state
                  sample_events)) sample_events ! 0"
proof -
  have h1: "saveFrequency throttled_session = ''throttled_5s''"
    by (simp add: throttled_session_def)
  have h2: "capturedResumeFromDB throttled_session"
    by (simp add: throttled_session_def sample_session_def)
  have h3: "nodeConnection sample_state" by (simp add: sample_state_def)
  note t = throttled_policy [OF h1 h2 h3, of "sample_env\<lparr>date_now := 1000\<rparr>" stringify_sample
      other_token]
  have a: "resumeTokenChanged stringify_sample throttled_session
        (sample_env\<lparr>date_now := 1000\<rparr>) other_token sample_state = (Skipped, sample_state)"
    using t by (simp add: sample_state_def)
  have s: "saved_times (fst (run_tokens stringify_sample throttled_session sample_state
             sample_events)) sample_events = [1700000000000, 1700000006000]"
    by (simp add: sample_events_outcomes) (simp add: sample_events_def sample_env_def)
  from t have "\<forall>evs i j. i < j
        \<and> j < length (saved_times (fst (run_tokens stringify_sample throttled_session
                  sample_state evs)) evs) \<longrightarrow>
      5000 \<le> saved_times (fst (run_tokens stringify_sample throttled_session
                  sample_state evs)) evs ! j
             - saved_times (fst (run_tokens stringify_sample throttled_session
                  sample_state evs)) evs ! i"
    by blast
  from this [rule_format, of 0 1 sample_events]
  have b: "5000 \<le> saved_times (fst (run_tokens stringify_sample throttled_session sample_state
                  sample_events)) sample_events ! 1
             - saved_times (fst (run_tokens stringify_sample throttled_session sample_state
                  sample_events)) sample_events ! 0"
    by (simp add: s)
  show ?thesis using h1 h2 h3 a s b by blast
qed

subsection \<open>A write that fails\<close>

lemma same_but_errors_iff:
  "((st'::trigger_state)\<lparr>errors := []\<rparr> = (st::trigger_state)\<lparr>errors := []\<rparr>) =
     (changeStream st' = changeStream st \<and> nodeConnection st' = nodeConnection st
      \<and> isClosing st' = isClosing st \<and> lastSavedToken st' = lastSavedToken st
      \<and> lastSaveTime st' = lastSaveTime st \<and> store st' = store st
      \<and> emitted st' = emitted st \<and> calls st' = calls st)"
  by (cases st, cases st') auto

lemma resumeTokenChanged_errors:
  assumes "st'\<lparr>errors := []\<rparr> = st\<lparr>errors := []\<rparr>"
  shows "fst (resumeTokenChanged f ses e tok st') = fst (resumeTokenChanged f ses e tok st)
     \<and> (snd (resumeTokenChanged f ses e tok st'))\<lparr>errors := []\<rparr>
          = (snd (resumeTokenChanged f ses e tok st))\<lparr>errors := []\<rparr>"
proof -
  from assms have eq: "changeStream st' = changeStream st \<and> nodeConnection st' = nodeConnection st
      \<and> isClosing st' = isClosing st \<and> lastSavedToken st' = lastSavedToken st
      \<and> lastSaveTime st' = lastSaveTime st \<and> store st' = store st
      \<and> emitted st' = emitted st \<and> calls st' = calls st"
    by (simp only: same_but_errors_iff)
  show ?thesis
    unfolding same_but_errors_iff
    using eq
    by (simp add: resumeTokenChanged_def save_try_def Let_def split: write_result.splits)
qed

lemma run_tokens_errors:
  "st'\<lparr>errors := []\<rparr> = st\<lparr>errors := []\<rparr> \<Longrightarrow>
   fst (run_tokens f ses st' evs) = fst (run_tokens f ses st evs)"
proof (induction evs arbitrary: st st')
  case Nil
  show ?case by simp
next
  case (Cons ev evs)
  obtain e tok where ev: "ev = (e, tok)" by (cases ev)
  from resumeTokenChanged_errors [OF Cons.prems, of f ses e tok]
  have h: "fst (resumeTokenChanged f ses e tok st') = fst (resumeTokenChanged f ses e tok st)"
    and n: "(snd (resumeTokenChanged f ses e tok st'))\<lparr>errors := []\<rparr>
          = (snd (resumeTokenChanged f ses e tok st))\<lparr>errors := []\<rparr>"
    by simp_all
  show ?case
    using h Cons.IH [OF n]
    by (simp add: ev run_tokens_Cons del: run_tokens.simps(2))
qed

lemma failed_write_step:
  assumes "capturedResumeFromDB ses" and "nodeConnection st" and "replaceOne e = Rejected ex"
  shows "resumeTokenChanged f ses e tok st = (Skipped, st)
     \<or> resumeTokenChanged f ses e tok st =
         (SaveFailed,
          st\<lparr>errors := errors st @ [(''Error saving resume token to database'', message ex)]\<rparr>)"
  using assms by (simp add: resumeTokenChanged_def save_try_def Let_def)

text \<open>
  C6. When the checkpoint write throws, the handler still returns: nothing is
  persisted, the state is the one before the event except for the logged error (so
  \<^verbatim>\<open>lastSavedToken\<close>, \<^verbatim>\<open>lastSaveTime\<close> and the checkpoint collection are unchanged), and
  the events after it have the outcomes they would have had if the failed event had
  been skipped.
\<close>

theorem write_failure_skips_save:
  assumes "capturedResumeFromDB ses" and "nodeConnection st" and "replaceOne e = Rejected ex"
  shows "fst (resumeTokenChanged f ses e tok st) \<noteq> Saved
     \<and> (\<exists>l. snd (resumeTokenChanged f ses e tok st) = st\<lparr>errors := l\<rparr>)
     \<and> lastSavedToken (snd (resumeTokenChanged f ses e tok st)) = lastSavedToken st
     \<and> lastSaveTime (snd (resumeTokenChanged f ses e tok st)) = lastSaveTime st
     \<and> store (snd (resumeTokenChanged f ses e tok st)) = store st
     \<and> fst (run_tokens f ses st ((e, tok) # evs))
         = fst (resumeTokenChanged f ses e tok st) # fst (run_tokens f ses st evs)"
proof -
  let ?r = "resumeTokenChanged f ses e tok st"
  from failed_write_step [OF assms, of f tok]
  have cases: "?r = (Skipped, st) \<or> ?r =
         (SaveFailed,
          st\<lparr>errors := errors st @ [(''Error saving resume token to database'', message ex)]\<rparr>)" .
  have upd: "\<exists>l. snd ?r = st\<lparr>errors := l\<rparr>"
  proof -
    have "st = st\<lparr>errors := errors st\<rparr>" by simp
    then show ?thesis using cases by (metis snd_conv)
  qed
  then obtain l where l: "snd ?r = st\<lparr>errors := l\<rparr>" by blast
  have "(snd ?r)\<lparr>errors := []\<rparr> = st\<lparr>errors := []\<rparr>"
    by (simp add: l)
  from run_tokens_errors [OF this]
  have run: "fst (run_tokens f ses st ((e, tok) # evs)) = fst ?r # fst (run_tokens f ses st evs)"
    by (simp add: run_tokens_Cons del: run_tokens.simps(2))
  have ns: "fst ?r \<noteq> Saved" using cases by auto
  show ?thesis using ns upd run l by simp
qed

lemma sample_failure_outcome:
  "resumeTokenChanged stringify_sample sample_session failing_env sample_token sample_state =
     (SaveFailed,
      sample_state\<lparr>errors := [(''Error saving resume token to database'', ''connection reset'')]\<rparr>)"
  by (simp add: resumeTokenChanged_def save_try_def Let_def failing_env_def sample_env_def
      sample_session_def sample_state_def sample_token_string)

lemma sample_save_outcome:
  "fst (run_tokens stringify_sample sample_session sample_state [(sample_env, sample_token)])
     = [Saved]"
  by (simp add: run_tokens_Cons resumeTokenChanged_def save_try_def Let_def sample_token_string
      sample_session_def sample_state_def sample_env_def del: run_tokens.simps(2))

text \<open>
  A rejected write followed by the same token again: the first event is not saved and
  leaves the cache empty, the second is saved.
\<close>

theorem write_failure_skips_save_witness:
  "capturedResumeFromDB sample_session \<and> nodeConnection sample_state
   \<and> replaceOne failing_env = Rejected (DriverError ''connection reset'')
   \<and> fst (resumeTokenChanged stringify_sample sample_session failing_env sample_token sample_state)
       \<noteq> Saved
   \<and> lastSavedToken (snd (resumeTokenChanged stringify_sample sample_session failing_env
        sample_token sample_state)) = SNull
   \<and> fst (run_tokens stringify_sample sample_session sample_state
            [(failing_env, sample_token), (sample_env, sample_token)]) = [SaveFailed, Saved]"
proof -
  have h1: "capturedResumeFromDB sample_session" by (simp add: sample_session_def)
  have h2: "nodeConnection sample_state" by (simp add: sample_state_def)
  have h3: "replaceOne failing_env = Rejected (DriverError ''connection reset'')"
    by (simp add: failing_env_def)
  note t = write_failure_skips_save [OF h1 h2 h3, of stringify_sample sample_token
      "[(sample_env, sample_token)]"]
  have a: "fst (resumeTokenChanged stringify_sample sample_session failing_env sample_token
                  sample_state) \<noteq> Saved"
    using t by blast
  have b: "lastSavedToken (snd (resumeTokenChanged stringify_sample sample_session failing_env
        sample_token sample_state)) = SNull"
    using t by (simp add: sample_state_def)
  have c: "fst (run_tokens stringify_sample sample_session sample_state
            [(failing_env, sample_token), (sample_env, sample_token)]) = [SaveFailed, Saved]"
    using t by (simp only: sample_save_outcome sample_failure_outcome fst_conv)
  show ?thesis using h1 h2 h3 a b c by blast
qed

section \<open>The checkpoint key and the cache at startup\<close>

lemma resumeTokenChanged_store_other:
  "k \<noteq> capturedResumeTokenKey ses \<Longrightarrow>
   store (snd (resumeTokenChanged f ses e tok st)) k = store st k"
  by (simp add: resumeTokenChanged_def save_try_def Let_def split: write_result.splits)

lemma run_tokens_store_other:
  "k \<noteq> capturedResumeTokenKey ses \<Longrightarrow> store (snd (run_tokens f ses st evs)) k = store st k"
proof (induction evs arbitrary: st)
  case Nil
  show ?case by simp
next
  case (Cons ev evs)
  obtain e tok where ev: "ev = (e, tok)" by (cases ev)
  show ?case
    using Cons.IH [OF Cons.prems] resumeTokenChanged_store_other [OF Cons.prems]
    by (simp add: ev run_tokens_Cons del: run_tokens.simps(2))
qed

lemma trigger_start_key:
  "trigger_start f jp opts database collection ops mf pr fd fmt ft db = Inr sub \<Longrightarrow>
   capturedResumeTokenKey (sub_session sub) = resolveResumeTokenKey opts database collection
   \<and> capturedResumeTokenCollection (sub_session sub) = resolveResumeTokenCollection opts collection"
  by (auto simp: trigger_start_def Let_def bindE_def split: prod.splits sum.splits)

text \<open>
  C9. With checkpointing enabled and the configured key empty, an unresolved template
  (it contains \<^verbatim>\<open>={{\<close>) or the literal \<^verbatim>\<open>default\<close>, the key is the resolved database name
  (\<^verbatim>\<open>default\<close> when that is empty), a dot and the collection name: a function of these
  two names alone. The started session holds this key, and however many token events
  it handles, no document under any other key is written. The default name of the
  checkpoint collection is the watched collection's name followed by
  \<^verbatim>\<open>_resume_tokens\<close>, and the session uses it when no name is configured.
\<close>

theorem checkpoint_key_derivation:
  assumes "resumeFromDB opts"
    and "resumeTokenKey opts = [] \<or> includes_str (resumeTokenKey opts) ''={{''
           \<or> resumeTokenKey opts = ''default''"
    and "trigger_start f jp opts database collection ops mf pr fd fmt ft db = Inr sub"
  shows "resolveResumeTokenKey opts database collection
           = (if database \<noteq> [] then database else ''default'') @ ''.'' @ collection
     \<and> capturedResumeTokenKey (sub_session sub)
           = (if database \<noteq> [] then database else ''default'') @ ''.'' @ collection
     \<and> (\<forall>evs k. k \<noteq> (if database \<noteq> [] then database else ''default'') @ ''.'' @ collection \<longrightarrow>
           store (snd (run_tokens f (sub_session sub) (sub_state sub) evs)) k = db k)
     \<and> defaultResumeTokenCollection collection = collection @ ''_resume_tokens''
     \<and> (resumeTokenCollection opts = [] \<longrightarrow>
           capturedResumeTokenCollection (sub_session sub) = collection @ ''_resume_tokens'')"
proof -
  let ?k = "(if database \<noteq> [] then database else ''default'') @ ''.'' @ collection"
  have key: "resolveResumeTokenKey opts database collection = ?k"
    using assms(1,2) by (auto simp: resolveResumeTokenKey_def generatedKey_def str_or_def Let_def)
  have cap: "capturedResumeTokenKey (sub_session sub) = ?k"
    using trigger_start_key [OF assms(3)] key by simp
  have st0: "store (sub_state sub) = db"
    using assms(3) by (auto simp: trigger_start_def Let_def bindE_def split: prod.splits sum.splits)
  have run: "\<forall>evs k. k \<noteq> ?k \<longrightarrow>
      store (snd (run_tokens f (sub_session sub) (sub_state sub) evs)) k = db k"
    using run_tokens_store_other [of _ "sub_session sub" f "sub_state sub"] cap st0 by simp
  have coll: "resumeTokenCollection opts = [] \<longrightarrow>
      capturedResumeTokenCollection (sub_session sub) = collection @ ''_resume_tokens''"
    using trigger_start_key [OF assms(3)]
    by (simp add: resolveResumeTokenCollection_def str_or_def defaultResumeTokenCollection_def)
  show ?thesis
    using key cap run coll by (simp add: defaultResumeTokenCollection_def)
qed

text \<open>
  Database \<^verbatim>\<open>shop\<close>, collection \<^verbatim>\<open>orders\<close>, no key configured: the key is
  \<^verbatim>\<open>shop.orders\<close>, the checkpoint collection \<^verbatim>\<open>orders_resume_tokens\<close>.
\<close>

theorem checkpoint_key_derivation_witness:
  "resumeFromDB sample_options
   \<and> resumeTokenKey sample_options = []
   \<and> trigger_start stringify_sample json_parse_sample sample_options ''shop'' ''orders''
       [''insert''] (JObj []) (JObj []) ''default'' ''simplified'' None sample_db
       = Inr sample_subscription
   \<and> resolveResumeTokenKey sample_options ''shop'' ''orders'' = ''shop.orders''
   \<and> capturedResumeTokenKey (sub_session sample_subscription) = ''shop.orders''
   \<and> store (snd (run_tokens stringify_sample (sub_session sample_subscription)
                    (sub_state sample_subscription) sample_events)) ''shop.customers''
       = sample_db ''shop.customers''
   \<and> capturedResumeTokenCollection (sub_session sample_subscription) = ''orders_resume_tokens''"
proof -
  have h1: "resumeFromDB sample_options" by (simp add: sample_options_def)
  have k: "resumeTokenKey sample_options = []" by (simp add: sample_options_def)
  have h2: "resumeTokenKey sample_options = []
      \<or> includes_str (resumeTokenKey sample_options) ''={{''
      \<or> resumeTokenKey sample_options = ''default''"
    using k by simp
  have c: "resumeTokenCollection sample_options = []" by (simp add: sample_options_def)
  note t = checkpoint_key_derivation [OF h1 h2 sample_trigger_start]
  have a: "resolveResumeTokenKey sample_options ''shop'' ''orders'' = ''shop.orders''"
    using t by simp
  have b: "capturedResumeTokenKey (sub_session sample_subscription) = ''shop.orders''"
    using t by simp
  have d: "store (snd (run_tokens stringify_sample (sub_session sample_subscription)
                    (sub_state sample_subscription) sample_events)) ''shop.customers''
       = sample_db ''shop.customers''"
    using t by simp
  have e: "capturedResumeTokenCollection (sub_session sample_subscription)
             = ''orders_resume_tokens''"
    using t c by simp
  show ?thesis using h1 k sample_trigger_start a b d e by blast
qed

text \<open>
  C10. When checkpointing is enabled, the policy is \<^verbatim>\<open>smart\<close> (configured or by
  default) and startup finds under the session's key a document whose token is truthy
  and has the non-empty string form \<open>s\<close>, the session starts with \<^verbatim>\<open>lastSavedToken\<close>
  equal to \<open>s\<close>; the first token event whose token has the same string form is then
  skipped and leaves the state, and so the checkpoint collection, as it was.
\<close>

theorem loaded_token_is_cached:
  assumes "resumeFromDB opts"
    and "resumeTokenSaveFrequency opts = [] \<or> resumeTokenSaveFrequency opts = ''smart''"
    and "db (resolveResumeTokenKey opts database collection) = Some (JObj kvs)"
    and "map_of kvs ''token'' = Some stored" and "truthy stored"
    and "token_string f stored = SStr s" and "s \<noteq> []"
    and "trigger_start f jp opts database collection ops mf pr fd fmt None db = Inr sub"
    and "token_string f tok = token_string f stored"
  shows "lastSavedToken (sub_state sub) = SStr s
     \<and> resumeTokenChanged f (sub_session sub) e tok (sub_state sub) = (Skipped, sub_state sub)"
proof -
  have load: "loadResumeToken f None db (resolveResumeTokenKey opts database collection) opts
                = (opts\<lparr>resumeAfter := s\<rparr>, [])"
    using assms(1,3,4,5,6) by (simp add: loadResumeToken_def Let_def)
  have sub: "sub_state sub = \<lparr> changeStream = True, nodeConnection = True, isClosing = False,
                lastSavedToken = SStr s, lastSaveTime = 0, store = db, emitted = [], errors = [],
                calls = [] \<rparr>
      \<and> saveFrequency (sub_session sub) = ''smart''
      \<and> capturedResumeFromDB (sub_session sub)"
    using assms(1,2,7,8)
    by (auto simp: trigger_start_def load Let_def bindE_def loadedTokenString_def str_or_def
        split: sum.splits)
  then have c: "lastSavedToken (sub_state sub) = SStr s" by simp
  have "resumeTokenChanged f (sub_session sub) e tok (sub_state sub) = (Skipped, sub_state sub)"
    using sub assms(6,9) by (simp add: resumeTokenChanged_def save_try_def Let_def)
  with c show ?thesis by simp
qed

text \<open>
  The session resumed from the sample checkpoint starts with the stored token's string
  form in the cache and skips the event that carries the same token.
\<close>

theorem loaded_token_is_cached_witness:
  "resumeFromDB sample_options
   \<and> resumeTokenSaveFrequency sample_options = []
   \<and> sample_db (resolveResumeTokenKey sample_options ''shop'' ''orders'')
       = Some (JObj [(''key'', JStr ''shop.orders''), (''token'', sample_token),
                     (''updatedAt'', JDate 1690000000000)])
   \<and> truthy sample_token
   \<and> token_string stringify_sample sample_token = SStr sample_token_text
   \<and> sample_token_text \<noteq> []
   \<and> trigger_start stringify_sample json_parse_sample sample_options ''shop'' ''orders''
       [''insert''] (JObj []) (JObj []) ''default'' ''simplified'' None sample_db
       = Inr sample_subscription
   \<and> lastSavedToken (sub_state sample_subscription) = SStr sample_token_text
   \<and> resumeTokenChanged stringify_sample (sub_session sample_subscription) sample_env sample_token
        (sub_state sample_subscription) = (Skipped, sub_state sample_subscription)"
proof -
  have h1: "resumeFromDB sample_options" by (simp add: sample_options_def)
  have f0: "resumeTokenSaveFrequency sample_options = []" by (simp add: sample_options_def)
  have h2: "resumeTokenSaveFrequency sample_options = []
      \<or> resumeTokenSaveFrequency sample_options = ''smart''"
    using f0 by simp
  have h3: "sample_db (resolveResumeTokenKey sample_options ''shop'' ''orders'')
       = Some (JObj [(''key'', JStr ''shop.orders''), (''token'', sample_token),
                     (''updatedAt'', JDate 1690000000000)])"
    by (simp add: sample_key sample_db_def checkpoint_record_def)
  have h4: "map_of [(''key'', JStr ''shop.orders''), (''token'', sample_token),
                     (''updatedAt'', JDate 1690000000000)] ''token'' = Some sample_token"
    by simp
  note h5 = sample_token_truthy
  note t = loaded_token_is_cached [OF h1 h2 h3 h4 h5 sample_token_string
      sample_token_text_nonempty sample_trigger_start refl, of sample_env]
  show ?thesis
    using h1 f0 h3 h5 sample_token_string sample_token_text_nonempty sample_trigger_start t
    by blast
qed

section \<open>Shutdown\<close>

lemma closeFunction_closing: "isClosing (closeFunction e st)"
  by (auto simp: closeFunction_def close_try_def Let_def split: option.splits prod.splits)

text \<open>A second call of \<^verbatim>\<open>closeFunction\<close> changes nothing and calls nothing.\<close>

lemma closeFunction_idempotent: "closeFunction e2 (closeFunction e1 st) = closeFunction e1 st"
  using closeFunction_closing [of e1 st] by (simp add: closeFunction_def [of e2])

text \<open>Once the flag is set, a stream error is neither logged nor emitted.\<close>

lemma on_stream_error_closing: "isClosing st \<Longrightarrow> on_stream_error ses e err st = st"
  by (simp add: on_stream_error_def)

text \<open>The subscription is stopped first; when that succeeds the connection is closed.\<close>

lemma close_normal:
  assumes "\<not> isClosing st" and "changeStream st" and "nodeConnection st"
    and "stream_close e = None"
  shows "calls (closeFunction e st) = calls st @ [StreamClose, ConnectionClose]
     \<and> \<not> changeStream (closeFunction e st)
     \<and> (connection_close e = None \<longrightarrow> \<not> nodeConnection (closeFunction e st))"
  using assms by (auto simp: closeFunction_def close_try_def Let_def split: option.splits)

lemma close_stream_failure:
  assumes "\<not> isClosing st" and "changeStream st" and "stream_close e = Some ex"
  shows "closeFunction e st =
     st\<lparr>isClosing := True, calls := calls st @ [StreamClose],
        errors := errors st @ [(''Error closing MongoDB connection'', message ex)]\<rparr>"
  using assms by (simp add: closeFunction_def close_try_def Let_def)

text \<open>
  C7. Both closes are in one \<^verbatim>\<open>try\<close> block. When \<^verbatim>\<open>changeStream.close()\<close> throws on a
  session with an open stream and an open connection, the error is logged and
  \<^verbatim>\<open>closeFunction\<close> returns, but \<^verbatim>\<open>nodeConnection.close()\<close> is never called: the
  connection stays open, and since the closing flag is set a later call does nothing
  about it.
\<close>

theorem close_skips_connection_after_stream_failure:
  "calls (closeFunction stream_close_fails_env sample_state) = [StreamClose]
   \<and> nodeConnection (closeFunction stream_close_fails_env sample_state)
   \<and> errors (closeFunction stream_close_fails_env sample_state)
       = [(''Error closing MongoDB connection'', ''cursor kill failed'')]
   \<and> calls (closeFunction sample_env (closeFunction stream_close_fails_env sample_state))
       = [StreamClose]"
proof -
  have r: "closeFunction stream_close_fails_env sample_state =
     sample_state\<lparr>isClosing := True, calls := [StreamClose],
        errors := [(''Error closing MongoDB connection'', ''cursor kill failed'')]\<rparr>"
    using close_stream_failure [of sample_state stream_close_fails_env
        "DriverError ''cursor kill failed''"]
    by (simp add: sample_state_def stream_close_fails_env_def)
  have i: "closeFunction sample_env (closeFunction stream_close_fails_env sample_state)
             = closeFunction stream_close_fails_env sample_state"
    by (rule closeFunction_idempotent)
  show ?thesis
    apply (simp only: i)
    apply (simp only: r)
    apply (simp add: sample_state_def)
    done
qed

end
